theory Spec2Isabelle
  imports Complex_Main
begin

section \<open>Python values shared by the modules\<close>

text \<open>
  The repository is a retrieval-augmented chatbot in Python: \<^verbatim>\<open>ingest.py\<close> builds a
  persisted vector store, \<^verbatim>\<open>retrieval.py\<close> searches it, and \<^verbatim>\<open>chatbot_groq.py\<close> /
  \<^verbatim>\<open>rag_core.py\<close> answer questions from the retrieved chunks. The embedding model, the
  FAISS index, the PDF loader, the text splitter and the generation API are third-party
  libraries; they appear below as function-valued fields (of the object that owns them, or
  of the record \<open>env\<close> of library entry points), so every theorem holds for whatever these
  libraries compute.

  Strings are byte lists. Python \<^verbatim>\<open>dict\<close>s whose keys vary at run time are association
  lists in insertion order; \<^verbatim>\<open>dict\<close> literals that have the same keys on every path are
  records.
\<close>

datatype pyval = PyInt int | PyStr string

type_synonym pydict = "(string \<times> pyval) list"

text \<open>\<^verbatim>\<open>d.get(key, default)\<close>\<close>

definition dict_get :: "pydict \<Rightarrow> string \<Rightarrow> pyval \<Rightarrow> pyval" where
  "dict_get d key dflt = (case map_of d key of None \<Rightarrow> dflt | Some v \<Rightarrow> v)"

text \<open>\<^verbatim>\<open>key in d\<close>\<close>

definition has_key :: "pydict \<Rightarrow> string \<Rightarrow> bool" where
  "has_key d key = (map_of d key \<noteq> None)"

text \<open>
  Instances of Python's \<^verbatim>\<open>Exception\<close> hierarchy, as far as the code raises or meets them.
  \<open>LibraryError\<close> stands for any exception raised inside a third-party call; its
  argument is what \<^verbatim>\<open>str(e)\<close> returns, which may be empty. Signals outside
  \<^verbatim>\<open>Exception\<close> (\<^verbatim>\<open>KeyboardInterrupt\<close>, \<^verbatim>\<open>SystemExit\<close>) are not modelled.
\<close>

datatype exc =
    FileNotFoundError string
  | FileExistsError string
  | IsADirectoryError string
  | ValueError string
  | IndexError string
  | AttributeError string
  | LibraryError string

fun str_exc :: "exc \<Rightarrow> string" where
  "str_exc (FileNotFoundError m) = m"
| "str_exc (FileExistsError m) = m"
| "str_exc (IsADirectoryError m) = m"
| "str_exc (ValueError m) = m"
| "str_exc (IndexError m) = m"
| "str_exc (AttributeError m) = m"
| "str_exc (LibraryError m) = m"

text \<open>\<^verbatim>\<open>str(n)\<close> for a non-negative integer: its decimal digits.\<close>

fun str_nat :: "nat \<Rightarrow> string" where
  "str_nat n =
     (if n < 10 then [char_of (48 + n)]
      else str_nat (n div 10) @ [char_of (48 + n mod 10)])"

declare str_nat.simps [simp del]

text \<open>\<^verbatim>\<open>sep.join(parts)\<close>\<close>

fun join :: "string \<Rightarrow> string list \<Rightarrow> string" where
  "join sep [] = []"
| "join sep [x] = x"
| "join sep (x # y # ys) = x @ sep @ join sep (y # ys)"

text \<open>
  \<^verbatim>\<open>s.strip()\<close>: leading and trailing whitespace removed. The whitespace characters are
  the ASCII ones of \<^verbatim>\<open>str.isspace\<close>: tab, line feed, vertical tab, form feed, carriage
  return, the separators 0x1C to 0x1F, and space.
\<close>

definition isspace :: "char \<Rightarrow> bool" where
  "isspace c = (of_char c \<in> {9, 10, 11, 12, 13, 28, 29, 30, 31, 32 :: nat})"

definition strip :: "string \<Rightarrow> string" where
  "strip s = rev (dropWhile isspace (rev (dropWhile isspace s)))"

section \<open>The world outside the program\<close>

text \<open>
  Standard output is the list of lines written by \<^verbatim>\<open>print\<close>, oldest first. The file
  system maps a path to what is there. A path is the string of a \<^verbatim>\<open>pathlib.Path\<close>, in
  the POSIX flavour; the file system is keyed by these strings, and the parent directories
  of a path are not tracked. A file holds either a dictionary written by
  \<^verbatim>\<open>pickle.dump\<close>, or other bytes, which are known by the exception that
  \<^verbatim>\<open>pickle.load\<close> raises on them.
\<close>

datatype file_content = Pickled pydict | Unpicklable exc

datatype fs_node = Directory | File file_content

type_synonym filesystem = "string \<Rightarrow> fs_node option"

text \<open>\<^verbatim>\<open>path.exists()\<close>\<close>

definition path_exists :: "filesystem \<Rightarrow> string \<Rightarrow> bool" where
  "path_exists files path = (files path \<noteq> None)"

text \<open>\<^verbatim>\<open>s.split(sep)\<close> for a separator of one character.\<close>

fun split_on :: "char \<Rightarrow> string \<Rightarrow> string list" where
  "split_on sep [] = [[]]"
| "split_on sep (c # cs) =
     (if c = sep then [] # split_on sep cs
      else (case split_on sep cs of
              [] \<Rightarrow> [[c]]
            | part # parts \<Rightarrow> (c # part) # parts))"

text \<open>
  \<^verbatim>\<open>str(Path(s))\<close>: the root is one slash, or two when the string starts with exactly
  two; empty components and the components \<^verbatim>\<open>.\<close> are dropped, so repeated and trailing
  slashes disappear; the empty path is \<^verbatim>\<open>.\<close>. The components \<^verbatim>\<open>..\<close> stay.
\<close>

definition Path :: "string \<Rightarrow> string" where
  "Path s =
     (let root = (if take 1 s \<noteq> ''/'' then []
                  else if take 1 (drop 1 s) \<noteq> ''/'' \<or> take 1 (drop 2 s) = ''/'' then ''/''
                  else ''//'');
          parts = filter (\<lambda>part. part \<noteq> [] \<and> part \<noteq> ''.'')
                    (split_on CHR ''/'' (drop (length root) s));
          str = root @ join ''/'' parts
      in if str = [] then ''.'' else str)"

text \<open>\<^verbatim>\<open>str(dir / name)\<close> for a path \<open>dir\<close> and a relative \<open>name\<close>.\<close>

definition path_join :: "string \<Rightarrow> string \<Rightarrow> string" where
  "path_join dir name =
     Path ((if dir = [] \<or> last dir = CHR ''/'' then dir else dir @ ''/'') @ name)"

text \<open>
  \<^verbatim>\<open>path.mkdir(exist_ok=True, parents=True)\<close>: nothing happens when the directory is
  there, and a file of that name is an error.
\<close>

definition mkdir :: "filesystem \<Rightarrow> string \<Rightarrow> exc + filesystem" where
  "mkdir files path =
     (case files path of
        None \<Rightarrow> Inr (files(path \<mapsto> Directory))
      | Some Directory \<Rightarrow> Inr files
      | Some (File _) \<Rightarrow>
          Inl (FileExistsError (''[Errno 17] File exists: '' @ [CHR 0x27] @ path @ [CHR 0x27])))"

text \<open>\<^verbatim>\<open>with open(path, "wb") as f: pickle.dump(obj, f)\<close>\<close>

definition pickle_dump :: "filesystem \<Rightarrow> string \<Rightarrow> pydict \<Rightarrow> exc + filesystem" where
  "pickle_dump files path obj =
     (case files path of
        Some Directory \<Rightarrow>
          Inl (IsADirectoryError (''[Errno 21] Is a directory: '' @ [CHR 0x27] @ path @ [CHR 0x27]))
      | _ \<Rightarrow> Inr (files(path \<mapsto> File (Pickled obj))))"

text \<open>A message of the Groq chat API, the request sent and the response received.\<close>

record message =
  role :: string
  msg_content :: string

record request =
  req_model :: string
  messages :: "message list"
  req_temperature :: real
  max_tokens :: nat

text \<open>\<^verbatim>\<open>response.choices[i].message.content\<close> is a string or \<^verbatim>\<open>None\<close>.\<close>

record choice =
  message_content :: "string option"

record response =
  choices :: "choice list"

record world =
  fs :: filesystem
  stdout :: "string list"
  api_calls :: "request list"

definition print :: "string \<Rightarrow> world \<Rightarrow> world" where
  "print line w = w\<lparr>stdout := stdout w @ [line]\<rparr>"

text \<open>The glyphs of the console messages, in UTF-8: a check mark, a cross, a warning sign.\<close>

abbreviation check_mark :: string where
  "check_mark \<equiv> [CHR 0xE2, CHR 0x9C, CHR 0x93]"

abbreviation cross_mark :: string where
  "cross_mark \<equiv> [CHR 0xE2, CHR 0x9C, CHR 0x97]"

abbreviation warning_sign :: string where
  "warning_sign \<equiv> [CHR 0xE2, CHR 0x9A, CHR 0xA0]"

abbreviation newline :: string where
  "newline \<equiv> [CHR 0x0A]"

section \<open>The libraries\<close>

text \<open>A langchain \<^verbatim>\<open>Document\<close>: \<^verbatim>\<open>page_content\<close> and \<^verbatim>\<open>metadata\<close>.\<close>

record document =
  page_content :: string
  doc_metadata :: pydict

text \<open>The handle returned by \<^verbatim>\<open>HuggingFaceEmbeddings(model_name=..., model_kwargs=...)\<close>.\<close>

record embeddings =
  model_name :: string
  device :: string

text \<open>
  A FAISS store, an object of the library: \<open>ntotal\<close> is \<^verbatim>\<open>index.ntotal\<close>;
  \<open>similarity_search_with_score\<close> is its method of that name, which embeds the query and
  returns (document, score) pairs, or raises; \<open>save_local\<close> writes the index under a
  directory and returns the file system it leaves, also when it raises.
\<close>

record vectorstore =
  ntotal :: nat
  similarity_search_with_score :: "string \<Rightarrow> int \<Rightarrow> exc + (document \<times> real) list"
  save_local :: "string \<Rightarrow> filesystem \<Rightarrow> (exc + unit) \<times> filesystem"

text \<open>
  The \<^verbatim>\<open>RecursiveCharacterTextSplitter\<close> object: the arguments it was built with and its
  method \<^verbatim>\<open>split_documents\<close>.
\<close>

record text_splitter =
  ts_chunk_size :: int
  ts_chunk_overlap :: int
  separators :: "string list"
  split_documents :: "document list \<Rightarrow> exc + document list"

text \<open>
  The \<^verbatim>\<open>Groq\<close> client. What \<^verbatim>\<open>client.chat.completions.create\<close> returns may depend on
  the requests made before, which it is given first.
\<close>

record groq_client =
  api_key :: string
  chat_completions_create :: "request list \<Rightarrow> request \<Rightarrow> exc + response"

text \<open>
  The constructors and class methods of the libraries that the code calls:
  \<^verbatim>\<open>HuggingFaceEmbeddings(model_name, device)\<close>, \<^verbatim>\<open>FAISS.load_local(dir, embeddings)\<close>,
  \<^verbatim>\<open>FAISS.from_documents(documents, embedding)\<close>,
  \<^verbatim>\<open>RecursiveCharacterTextSplitter(chunk_size, chunk_overlap, separators)\<close> and
  \<^verbatim>\<open>DirectoryLoader(dir, glob, loader_cls=PyPDFLoader).load()\<close>. Each returns its result
  or raises.
\<close>

record env =
  HuggingFaceEmbeddings :: "string \<Rightarrow> string \<Rightarrow> exc + embeddings"
  FAISS_load_local :: "string \<Rightarrow> embeddings \<Rightarrow> filesystem \<Rightarrow> exc + vectorstore"
  FAISS_from_documents :: "document list \<Rightarrow> embeddings \<Rightarrow> exc + vectorstore"
  RecursiveCharacterTextSplitter :: "int \<Rightarrow> int \<Rightarrow> string list \<Rightarrow> exc + text_splitter"
  DirectoryLoader_load :: "string \<Rightarrow> string \<Rightarrow> filesystem \<Rightarrow> exc + document list"

text \<open>
  \<^verbatim>\<open>with open(path, "rb") as f: return pickle.load(f)\<close>
\<close>

definition pickle_load :: "filesystem \<Rightarrow> string \<Rightarrow> exc + pydict" where
  "pickle_load files path =
     (case files path of
        Some (File (Pickled obj)) \<Rightarrow> Inr obj
      | Some (File (Unpicklable e)) \<Rightarrow> Inl e
      | Some Directory \<Rightarrow>
          Inl (IsADirectoryError (''[Errno 21] Is a directory: '' @ [CHR 0x27] @ path @ [CHR 0x27]))
      | None \<Rightarrow>
          Inl (FileNotFoundError
                 (''[Errno 2] No such file or directory: '' @ [CHR 0x27] @ path @ [CHR 0x27])))"

section \<open>retrieval.py\<close>

text \<open>One entry of the list that \<^verbatim>\<open>Retriever.search\<close> returns.\<close>

record search_result =
  content :: string
  metadata :: pydict
  score :: real
  source :: pyval

text \<open>
  The attributes of a \<^verbatim>\<open>Retriever\<close>: \<^verbatim>\<open>vectorstore_dir\<close> (a path), \<^verbatim>\<open>top_k\<close>,
  \<^verbatim>\<open>embeddings\<close>, \<^verbatim>\<open>vectorstore\<close> and \<^verbatim>\<open>metadata\<close>, the sidecar record as it was
  loaded.
\<close>

record Retriever =
  vectorstore_dir :: string
  top_k :: int
  r_embeddings :: embeddings
  r_vectorstore :: vectorstore
  r_metadata :: pydict

text \<open>The body of the formatting loop of \<^verbatim>\<open>search\<close>, for one (doc, score) pair.\<close>

definition format_result :: "document \<times> real \<Rightarrow> search_result" where
  "format_result p =
     (case p of (doc, sc) \<Rightarrow>
        \<lparr> content = page_content doc,
          metadata = doc_metadata doc,
          score = sc,
          source = dict_get (doc_metadata doc) ''source'' (PyStr ''Unknown'') \<rparr>)"

text \<open>
  \<^verbatim>\<open>Retriever.search(query, k=None)\<close>. \<open>None\<close> for \<open>k\<close> is the default argument; an
  exception of the store's search propagates.
\<close>

definition search :: "Retriever \<Rightarrow> string \<Rightarrow> int option \<Rightarrow> exc + search_result list" where
  "search self query k =
     (let k' = (case k of None \<Rightarrow> top_k self | Some n \<Rightarrow> n)
      in case similarity_search_with_score (r_vectorstore self) query k' of
           Inl e \<Rightarrow> Inl e
         | Inr results \<Rightarrow> Inr (map format_result results))"

text \<open>\<^verbatim>\<open>Retriever.get_stats()\<close>\<close>

definition get_stats :: "Retriever \<Rightarrow> pydict" where
  "get_stats self =
     [ (''total_chunks'', PyInt (int (ntotal (r_vectorstore self)))),
       (''chunk_size'', dict_get (r_metadata self) ''chunk_size'' (PyStr ''Unknown'')),
       (''chunk_overlap'', dict_get (r_metadata self) ''chunk_overlap'' (PyStr ''Unknown'')),
       (''embedding_model'', PyStr ''sentence-transformers/all-MiniLM-L6-v2'') ]"

text \<open>
  \<^verbatim>\<open>Retriever._load_vectorstore()\<close>, reading \<^verbatim>\<open>self.vectorstore_dir\<close> and
  \<^verbatim>\<open>self.embeddings\<close>.
\<close>

definition load_vectorstore ::
  "env \<Rightarrow> string \<Rightarrow> embeddings \<Rightarrow> world \<Rightarrow> (exc + vectorstore) \<times> world" where
  "load_vectorstore env dir emb w =
     (if \<not> path_exists (fs w) dir then
        (Inl (FileNotFoundError
                (''Vector store not found at '' @ dir @ ''. Please run ingest.py first.'')), w)
      else
        let w1 = print (''Loading vector store from '' @ dir @ ''...'') w
        in case FAISS_load_local env dir emb (fs w1) of
             Inl e \<Rightarrow> (Inl e, w1)
           | Inr vs \<Rightarrow>
               (Inr vs,
                print (check_mark @ '' Vector store loaded with '' @ str_nat (ntotal vs)
                         @ '' chunks'') w1))"

text \<open>\<^verbatim>\<open>Retriever._load_metadata()\<close>\<close>

definition load_metadata :: "string \<Rightarrow> world \<Rightarrow> exc + pydict" where
  "load_metadata dir w =
     (let metadata_path = path_join dir ''metadata.pkl''
      in if path_exists (fs w) metadata_path then pickle_load (fs w) metadata_path
         else Inr [])"

text \<open>
  \<^verbatim>\<open>Retriever(vectorstore_dir, embedding_model, top_k)\<close>: the directory is kept as a
  \<^verbatim>\<open>Path\<close>, the embedding model is loaded, then the store and its sidecar record. The
  constructor either returns the object or raises.
\<close>

definition Retriever_init ::
  "env \<Rightarrow> string \<Rightarrow> string \<Rightarrow> int \<Rightarrow> world \<Rightarrow> (exc + Retriever) \<times> world" where
  "Retriever_init env dir embedding_model k w =
     (let vdir = Path dir;
          w1 = print (''Loading embedding model: '' @ embedding_model) w
      in case HuggingFaceEmbeddings env embedding_model ''cpu'' of
           Inl e \<Rightarrow> (Inl e, w1)
         | Inr emb \<Rightarrow>
             (case load_vectorstore env vdir emb w1 of
                (Inl e, w2) \<Rightarrow> (Inl e, w2)
              | (Inr vs, w2) \<Rightarrow>
                  (case load_metadata vdir w2 of
                     Inl e \<Rightarrow> (Inl e, w2)
                   | Inr md \<Rightarrow>
                       (Inr \<lparr> vectorstore_dir = vdir, top_k = k, r_embeddings = emb,
                              r_vectorstore = vs, r_metadata = md \<rparr>, w2))))"

text \<open>\<^verbatim>\<open>Retriever.get_context(query, k=None)\<close>\<close>

definition get_context :: "Retriever \<Rightarrow> string \<Rightarrow> int option \<Rightarrow> exc + string" where
  "get_context self query k =
     (case search self query k of
        Inl e \<Rightarrow> Inl e
      | Inr results \<Rightarrow>
          Inr (join (newline @ newline)
                 (map (\<lambda>(i, result). ''[Document '' @ str_nat i @ '']'' @ newline @ content result)
                    (enumerate 1 results))))"

section \<open>chatbot\_groq.py and rag\_core.py\<close>

text \<open>
  The two files define the same class \<^verbatim>\<open>RAGChatbot\<close> with the same methods
  \<^verbatim>\<open>_create_prompt\<close> and \<^verbatim>\<open>answer\<close>, line for line.
\<close>

record RAGChatbot =
  model :: string
  temperature :: real
  bot_top_k :: int
  client :: groq_client
  retriever :: Retriever

text \<open>\<^verbatim>\<open>RAGChatbot._create_prompt(query, context)\<close>\<close>

definition create_prompt :: "string \<Rightarrow> string \<Rightarrow> string" where
  "create_prompt query context =
     ''You are a helpful research assistant. Answer the question based on the provided context from research papers.''
       @ newline @ newline
     @ ''Context from research papers:'' @ newline
     @ context @ newline @ newline
     @ ''Question: '' @ query @ newline @ newline
     @ ''Instructions:'' @ newline
     @ ''- Answer based ONLY on the information in the context above'' @ newline
     @ ''- If the context doesn't contain enough information to answer, say so'' @ newline
     @ ''- Be concise but comprehensive'' @ newline
     @ ''- Cite specific details from the context when relevant'' @ newline @ newline
     @ ''Answer:''"

text \<open>The dictionary that \<^verbatim>\<open>answer\<close> returns.\<close>

record answer_obj =
  answer_text :: string
  sources :: "search_result list"
  answer_metadata :: pydict

text \<open>The answer returned when nothing was retrieved.\<close>

definition no_information :: string where
  "no_information =
     ''I couldn't find any relevant information in the documents.''"

text \<open>
  Step 2 of \<^verbatim>\<open>answer\<close>: the retrieved chunks, labelled \<^verbatim>\<open>[Source N]\<close> from 1 and
  separated by blank lines.
\<close>

definition context_of :: "search_result list \<Rightarrow> string" where
  "context_of results =
     join (newline @ newline)
       (map (\<lambda>(i, r). ''[Source '' @ str_nat (i + 1) @ '']: '' @ content r)
          (enumerate 0 results))"

text \<open>The keyword arguments of \<^verbatim>\<open>self.client.chat.completions.create\<close>.\<close>

definition completion_request :: "RAGChatbot \<Rightarrow> string \<Rightarrow> request" where
  "completion_request self prompt =
     \<lparr> req_model = model self,
       messages = [\<lparr> role = ''user'', msg_content = prompt \<rparr>],
       req_temperature = temperature self,
       max_tokens = 512 \<rparr>"

text \<open>
  The \<^verbatim>\<open>try\<close> block of \<^verbatim>\<open>answer\<close>: the call of the generation API and
  \<^verbatim>\<open>response.choices[0].message.content.strip()\<close>. The call is entered in
  \<open>api_calls\<close>. An empty \<^verbatim>\<open>choices\<close> and a \<^verbatim>\<open>None\<close> content raise inside the block.
\<close>

definition generate :: "RAGChatbot \<Rightarrow> string \<Rightarrow> world \<Rightarrow> (exc + string) \<times> world" where
  "generate self prompt w =
     (let req = completion_request self prompt;
          w1 = w\<lparr>api_calls := api_calls w @ [req]\<rparr>
      in case chat_completions_create (client self) (api_calls w) req of
           Inl e \<Rightarrow> (Inl e, w1)
         | Inr resp \<Rightarrow>
             (case choices resp of
                [] \<Rightarrow> (Inl (IndexError ''list index out of range''), w1)
              | c # _ \<Rightarrow>
                  (case message_content c of
                     None \<Rightarrow>
                       (Inl (AttributeError
                               ([CHR 0x27] @ ''NoneType'' @ [CHR 0x27]
                                  @ '' object has no attribute '' @ [CHR 0x27] @ ''strip''
                                  @ [CHR 0x27])), w1)
                   | Some s \<Rightarrow> (Inr (strip s), w1))))"

text \<open>
  \<^verbatim>\<open>RAGChatbot.answer(query, return_sources=True)\<close>. An exception of the retriever
  propagates; an exception of the \<^verbatim>\<open>try\<close> block becomes the answer text.
\<close>

definition answer ::
  "RAGChatbot \<Rightarrow> string \<Rightarrow> bool \<Rightarrow> world \<Rightarrow> (exc + answer_obj) \<times> world" where
  "answer self query return_sources w =
     (let w1 = print (newline @ ''Processing query: '' @ query) w;
          w2 = print ''Retrieving relevant documents...'' w1
      in case search (retriever self) query (Some (bot_top_k self)) of
           Inl e \<Rightarrow> (Inl e, w2)
         | Inr results \<Rightarrow>
             if results = [] then
               (Inr \<lparr> answer_text = no_information,
                      sources = [],
                      answer_metadata = [(''retrieved_chunks'', PyInt 0)] \<rparr>, w2)
             else
               let context = context_of results;
                   w3 = print (''Generating answer with '' @ model self @ ''...'') w2;
                   prompt = create_prompt query context;
                   (ans, w5) =
                     (case generate self prompt w3 of
                        (Inr text, w4) \<Rightarrow> (text, w4)
                      | (Inl e, w4) \<Rightarrow>
                          (''Error generating answer: '' @ str_exc e,
                           print (cross_mark @ '' Generation error: '' @ str_exc e) w4))
               in (Inr \<lparr> answer_text = ans,
                         sources = (if return_sources then results else []),
                         answer_metadata =
                           [ (''retrieved_chunks'', PyInt (int (length results))),
                             (''model'', PyStr (model self)),
                             (''query'', PyStr query) ] \<rparr>, w5))"

section \<open>ingest.py\<close>

text \<open>
  The attributes of a \<^verbatim>\<open>DocumentIngestor\<close>; \<^verbatim>\<open>data_dir\<close> and \<^verbatim>\<open>vectorstore_dir\<close> are paths.
\<close>

record DocumentIngestor =
  data_dir :: string
  ing_vectorstore_dir :: string
  chunk_size :: int
  chunk_overlap :: int
  ing_embeddings :: embeddings
  text_splitter :: text_splitter

text \<open>
  \<^verbatim>\<open>DocumentIngestor(data_dir, vectorstore_dir, chunk_size, chunk_overlap, embedding_model)\<close>.
  The splitter is built from the same \<open>chunk_size\<close> and \<open>chunk_overlap\<close>, with
  \<^verbatim>\<open>length_function=len\<close> and the four separators.
\<close>

definition DocumentIngestor_init ::
  "env \<Rightarrow> string \<Rightarrow> string \<Rightarrow> int \<Rightarrow> int \<Rightarrow> string \<Rightarrow> world
     \<Rightarrow> (exc + DocumentIngestor) \<times> world" where
  "DocumentIngestor_init env ddir vdir csize coverlap embedding_model w =
     (let w1 = print (''Loading embedding model: '' @ embedding_model) w
      in case HuggingFaceEmbeddings env embedding_model ''cpu'' of
           Inl e \<Rightarrow> (Inl e, w1)
         | Inr emb \<Rightarrow>
             (case RecursiveCharacterTextSplitter env csize coverlap
                     [newline @ newline, newline, '' '', []] of
                Inl e \<Rightarrow> (Inl e, w1)
              | Inr ts \<Rightarrow>
                  (Inr \<lparr> data_dir = Path ddir, ing_vectorstore_dir = Path vdir,
                         chunk_size = csize,
                         chunk_overlap = coverlap, ing_embeddings = emb,
                         text_splitter = ts \<rparr>, w1)))"

text \<open>\<^verbatim>\<open>DocumentIngestor.load_documents()\<close>\<close>

definition load_documents ::
  "env \<Rightarrow> DocumentIngestor \<Rightarrow> world \<Rightarrow> (exc + document list) \<times> world" where
  "load_documents env self w =
     (let w1 = print (''Loading documents from '' @ data_dir self @ ''...'') w
      in if \<not> path_exists (fs w1) (data_dir self) then
           (Inl (FileNotFoundError (''Data directory not found: '' @ data_dir self)), w1)
         else
           case DirectoryLoader_load env (data_dir self) ''**/*.pdf'' (fs w1) of
             Inl e \<Rightarrow> (Inl e, w1)
           | Inr documents \<Rightarrow>
               (Inr documents,
                print (''Loaded '' @ str_nat (length documents) @ '' document pages'') w1))"

text \<open>\<^verbatim>\<open>DocumentIngestor.chunk_documents(documents)\<close>\<close>

definition chunk_documents ::
  "DocumentIngestor \<Rightarrow> document list \<Rightarrow> world \<Rightarrow> (exc + document list) \<times> world" where
  "chunk_documents self documents w =
     (let w1 = print ''Chunking documents...'' w
      in case split_documents (text_splitter self) documents of
           Inl e \<Rightarrow> (Inl e, w1)
         | Inr chunks \<Rightarrow>
             (Inr chunks, print (''Created '' @ str_nat (length chunks) @ '' chunks'') w1))"

text \<open>\<^verbatim>\<open>DocumentIngestor.create_vectorstore(chunks)\<close>\<close>

definition create_vectorstore ::
  "env \<Rightarrow> DocumentIngestor \<Rightarrow> document list \<Rightarrow> world \<Rightarrow> (exc + vectorstore) \<times> world" where
  "create_vectorstore env self chunks w =
     (let w1 = print ''Creating embeddings and vector store...'' w;
          w2 = print ''This may take a few minutes depending on document size...'' w1
      in (FAISS_from_documents env chunks (ing_embeddings self), w2))"

text \<open>
  \<^verbatim>\<open>DocumentIngestor.save_vectorstore(vectorstore)\<close>: the index is written by the library,
  then the sidecar record \<^verbatim>\<open>metadata.pkl\<close> by this code.
\<close>

definition save_vectorstore ::
  "DocumentIngestor \<Rightarrow> vectorstore \<Rightarrow> world \<Rightarrow> (exc + unit) \<times> world" where
  "save_vectorstore self vs w =
     (case mkdir (fs w) (ing_vectorstore_dir self) of
        Inl e \<Rightarrow> (Inl e, w)
      | Inr fs1 \<Rightarrow>
          (let w1 = print (''Saving vector store to '' @ ing_vectorstore_dir self @ ''...'')
                      (w\<lparr>fs := fs1\<rparr>)
           in (case save_local vs (ing_vectorstore_dir self) (fs w1) of
                 (Inl e, fs2) \<Rightarrow> (Inl e, w1\<lparr>fs := fs2\<rparr>)
               | (Inr _, fs2) \<Rightarrow>
                   (let sidecar = [ (''num_chunks'', PyInt (int (ntotal vs))),
                                    (''chunk_size'', PyInt (chunk_size self)),
                                    (''chunk_overlap'', PyInt (chunk_overlap self)) ]
                    in (case pickle_dump fs2
                               (path_join (ing_vectorstore_dir self) ''metadata.pkl'') sidecar of
                          Inl e \<Rightarrow> (Inl e, w1\<lparr>fs := fs2\<rparr>)
                        | Inr fs3 \<Rightarrow>
                            (Inr (),
                             print (check_mark @ '' Vector store saved with ''
                                      @ str_nat (ntotal vs) @ '' chunks'')
                               (w1\<lparr>fs := fs3\<rparr>)))))))"

text \<open>The message printed when no document was loaded.\<close>

definition no_documents_found :: string where
  "no_documents_found =
     warning_sign @ '' No documents found. Please add PDF files to the data/ directory''"

text \<open>The \<^verbatim>\<open>try\<close> block of \<^verbatim>\<open>ingest\<close>.\<close>

definition ingest_steps :: "env \<Rightarrow> DocumentIngestor \<Rightarrow> world \<Rightarrow> (exc + unit) \<times> world" where
  "ingest_steps env self w =
     (case load_documents env self w of
        (Inl e, w1) \<Rightarrow> (Inl e, w1)
      | (Inr documents, w1) \<Rightarrow>
          if length documents = 0 then (Inr (), print no_documents_found w1)
          else
            (case chunk_documents self documents w1 of
               (Inl e, w2) \<Rightarrow> (Inl e, w2)
             | (Inr chunks, w2) \<Rightarrow>
                 (case create_vectorstore env self chunks w2 of
                    (Inl e, w3) \<Rightarrow> (Inl e, w3)
                  | (Inr vs, w3) \<Rightarrow>
                      (case save_vectorstore self vs w3 of
                         (Inl e, w4) \<Rightarrow> (Inl e, w4)
                       | (Inr _, w4) \<Rightarrow>
                           (Inr (),
                            print (replicate 50 CHR ''='')
                              (print (check_mark @ '' Ingestion Complete!'')
                                 (print (newline @ replicate 50 CHR ''='') w4)))))))"

text \<open>
  \<^verbatim>\<open>DocumentIngestor.ingest()\<close>: the banner, the steps, and the handler that reports an
  exception and raises it again. \<open>Inr ()\<close> is the normal return of \<^verbatim>\<open>None\<close>.
\<close>

definition ingest :: "env \<Rightarrow> DocumentIngestor \<Rightarrow> world \<Rightarrow> (exc + unit) \<times> world" where
  "ingest env self w =
     (let w1 = print (replicate 50 CHR ''='') w;
          w2 = print ''Starting Document Ingestion Pipeline'' w1;
          w3 = print (replicate 50 CHR ''='') w2
      in case ingest_steps env self w3 of
           (Inl e, w4) \<Rightarrow>
             (Inl e, print (newline @ cross_mark @ '' Error during ingestion: '' @ str_exc e) w4)
         | (Inr u, w4) \<Rightarrow> (Inr u, w4))"

section \<open>Example objects\<close>

text \<open>
  A store of two chunks, one of which has no \<^verbatim>\<open>source\<close> in its metadata, and an empty
  store; a client whose every call fails and one that answers; the libraries and file
  systems around them. The theorems are exercised on these.
\<close>

definition chunk_a :: document where
  "chunk_a = \<lparr> page_content = ''Attention is all you need.'',
               doc_metadata = [(''source'', PyStr ''data/paper.pdf''), (''page'', PyInt 0)] \<rparr>"

definition chunk_b :: document where
  "chunk_b = \<lparr> page_content = ''Scaled dot-product attention.'',
               doc_metadata = [(''page'', PyInt 1)] \<rparr>"

definition two_chunk_store :: vectorstore where
  "two_chunk_store =
     \<lparr> ntotal = 2,
       similarity_search_with_score =
         (\<lambda>query k. Inr (take (nat k) [(chunk_a, 1 / 4), (chunk_b, 1 / 2)])),
       save_local =
         (\<lambda>dir files.
            (Inr (), files(path_join dir ''index.faiss'' \<mapsto> File (Unpicklable (LibraryError []))))) \<rparr>"

definition empty_store :: vectorstore where
  "empty_store =
     \<lparr> ntotal = 0,
       similarity_search_with_score = (\<lambda>query k. Inr []),
       save_local = (\<lambda>dir files. (Inr (), files)) \<rparr>"

definition example_env :: env where
  "example_env =
     \<lparr> HuggingFaceEmbeddings = (\<lambda>name dev. Inr \<lparr> model_name = name, device = dev \<rparr>),
       FAISS_load_local = (\<lambda>dir emb files. Inr two_chunk_store),
       FAISS_from_documents = (\<lambda>documents emb. Inr two_chunk_store),
       RecursiveCharacterTextSplitter =
         (\<lambda>csize coverlap seps.
            Inr \<lparr> ts_chunk_size = csize, ts_chunk_overlap = coverlap, separators = seps,
                   split_documents = (\<lambda>documents. Inr documents) \<rparr>),
       DirectoryLoader_load = (\<lambda>dir pattern files. Inr []) \<rparr>"

definition MiniLM :: string where
  "MiniLM = ''sentence-transformers/all-MiniLM-L6-v2''"

definition empty_world :: world where
  "empty_world = \<lparr> fs = Map.empty, stdout = [], api_calls = [] \<rparr>"

definition data_world :: world where
  "data_world = \<lparr> fs = [''data'' \<mapsto> Directory], stdout = [], api_calls = [] \<rparr>"

text \<open>A store directory whose sidecar record is older than its index of two chunks.\<close>

definition stale_world :: world where
  "stale_world =
     \<lparr> fs = [''vectorstore'' \<mapsto> Directory,
              ''vectorstore/metadata.pkl'' \<mapsto>
                File (Pickled [(''num_chunks'', PyInt 5), (''chunk_size'', PyInt 1000),
                               (''chunk_overlap'', PyInt 200)])],
       stdout = [], api_calls = [] \<rparr>"

definition stale_retriever :: Retriever where
  "stale_retriever =
     \<lparr> vectorstore_dir = ''vectorstore'', top_k = 4,
       r_embeddings = \<lparr> model_name = MiniLM, device = ''cpu'' \<rparr>,
       r_vectorstore = two_chunk_store,
       r_metadata = [(''num_chunks'', PyInt 5), (''chunk_size'', PyInt 1000),
                     (''chunk_overlap'', PyInt 200)] \<rparr>"



text \<open>Libraries that cannot load the embedding model.\<close>

definition offline_env :: env where
  "offline_env =
     example_env\<lparr>HuggingFaceEmbeddings :=
                   (\<lambda>name dev. Inl (LibraryError ''Connection error.''))\<rparr>"

definition example_ingestor :: DocumentIngestor where
  "example_ingestor =
     \<lparr> data_dir = ''data'', ing_vectorstore_dir = ''vectorstore'', chunk_size = 1000,
       chunk_overlap = 200,
       ing_embeddings = \<lparr> model_name = MiniLM, device = ''cpu'' \<rparr>,
       text_splitter =
         \<lparr> ts_chunk_size = 1000, ts_chunk_overlap = 200,
           separators = [newline @ newline, newline, '' '', []],
           split_documents = (\<lambda>documents. Inr documents) \<rparr> \<rparr>"

definition failing_client :: groq_client where
  "failing_client =
     \<lparr> api_key = ''gsk_example'',
       chat_completions_create = (\<lambda>history req. Inl (LibraryError ''Connection error.'')) \<rparr>"

definition answering_client :: groq_client where
  "answering_client =
     \<lparr> api_key = ''gsk_example'',
       chat_completions_create =
         (\<lambda>history req. Inr \<lparr> choices = [\<lparr> message_content = Some '' Transformers. '' \<rparr>] \<rparr>) \<rparr>"

definition example_bot :: "groq_client \<Rightarrow> vectorstore \<Rightarrow> RAGChatbot" where
  "example_bot c vs =
     \<lparr> model = ''llama-3.2-3b-preview'', temperature = 1 / 10, bot_top_k = 4, client = c,
       retriever = stale_retriever\<lparr>r_vectorstore := vs\<rparr> \<rparr>"

section \<open>Facts about the console and the records\<close>

lemma api_calls_print [simp]: "api_calls (print line w) = api_calls w"
  by (simp add: print_def)

lemma fs_print [simp]: "fs (print line w) = fs w"
  by (simp add: print_def)

lemma stdout_print [simp]: "stdout (print line w) = stdout w @ [line]"
  by (simp add: print_def)

section \<open>Retriever.search\<close>


lemma search_Inl:
  "similarity_search_with_score (r_vectorstore self) query
     (case k of None \<Rightarrow> top_k self | Some n \<Rightarrow> n) = Inl e
   \<Longrightarrow> search self query k = Inl e"
  by (simp add: search_def)


lemma source_format_result:
  "source (format_result p) = dict_get (metadata (format_result p)) ''source'' (PyStr ''Unknown'')"
  by (cases p) (simp add: format_result_def)


lemma search_example_bot:
  "search (retriever (example_bot c vs)) query (Some (bot_top_k (example_bot c vs)))
     = (case similarity_search_with_score vs query 4 of
          Inl e \<Rightarrow> Inl e | Inr hits \<Rightarrow> Inr (map format_result hits))"
  by (simp add: search_def example_bot_def)




text \<open>
  Claim C10. A result of \<^verbatim>\<open>search\<close> whose metadata map has no key \<^verbatim>\<open>source\<close> has the
  string \<^verbatim>\<open>Unknown\<close> as its source field.
\<close>

theorem search_source_unknown:
  assumes "search self query k = Inr results"
    and "r \<in> set results"
    and "\<not> has_key (metadata r) ''source''"
  shows "source r = PyStr ''Unknown''"
proof -
  from assms(1) obtain hits where "results = map format_result hits"
    by (auto simp: search_def Let_def split: sum.splits)
  with assms(2) obtain p where "r = format_result p" by auto
  then have "source r = dict_get (metadata r) ''source'' (PyStr ''Unknown'')"
    by (simp add: source_format_result)
  with assms(3) show ?thesis
    by (simp add: dict_get_def has_key_def)
qed

text \<open>The second chunk of the example store has no source.\<close>

theorem search_source_unknown_witness:
  "search stale_retriever ''attention'' None =
     Inr [ format_result (chunk_a, 1 / 4), format_result (chunk_b, 1 / 2) ]
   \<and> format_result (chunk_b, 1 / 2)
       \<in> set [ format_result (chunk_a, 1 / 4), format_result (chunk_b, 1 / 2) ]
   \<and> \<not> has_key (metadata (format_result (chunk_b, 1 / 2))) ''source''
   \<and> source (format_result (chunk_b, 1 / 2)) = PyStr ''Unknown''"
proof -
  have s: "search stale_retriever ''attention'' None =
             Inr [ format_result (chunk_a, 1 / 4), format_result (chunk_b, 1 / 2) ]"
    by (simp add: search_def stale_retriever_def two_chunk_store_def)
  have m: "format_result (chunk_b, 1 / 2)
             \<in> set [ format_result (chunk_a, 1 / 4), format_result (chunk_b, 1 / 2) ]"
    by simp
  have k: "\<not> has_key (metadata (format_result (chunk_b, 1 / 2))) ''source''"
    by (simp add: format_result_def chunk_b_def has_key_def)
  from search_source_unknown [OF s m k] s m k show ?thesis by simp
qed

section \<open>RAGChatbot.answer\<close>

lemma answer_retrieval_error:
  assumes "search (retriever self) query (Some (bot_top_k self)) = Inl e"
  shows "fst (answer self query return_sources w) = Inl e"
  using assms by (simp add: answer_def)

lemma answer_nothing_retrieved:
  assumes "search (retriever self) query (Some (bot_top_k self)) = Inr []"
  shows "answer self query return_sources w =
           (Inr \<lparr> answer_text = no_information, sources = [],
                  answer_metadata = [(''retrieved_chunks'', PyInt 0)] \<rparr>,
            print ''Retrieving relevant documents...''
              (print (newline @ ''Processing query: '' @ query) w))"
  using assms by (simp add: answer_def)

lemma answer_retrieved:
  assumes "search (retriever self) query (Some (bot_top_k self)) = Inr results"
    and "results \<noteq> []"
  shows "\<exists>text w'.
           answer self query return_sources w =
             (Inr \<lparr> answer_text = text,
                    sources = (if return_sources then results else []),
                    answer_metadata =
                      [ (''retrieved_chunks'', PyInt (int (length results))),
                        (''model'', PyStr (model self)),
                        (''query'', PyStr query) ] \<rparr>, w')"
  using assms by (simp add: answer_def Let_def split: prod.splits sum.splits)

lemma generate_raises:
  assumes "chat_completions_create (client self) (api_calls w)
             (completion_request self prompt) = Inl e"
  shows "generate self prompt w =
           (Inl e, w\<lparr>api_calls := api_calls w @ [completion_request self prompt]\<rparr>)"
  using assms by (simp add: generate_def Let_def)

lemma answer_generation_raises:
  assumes "search (retriever self) query (Some (bot_top_k self)) = Inr results"
    and "results \<noteq> []"
    and "chat_completions_create (client self) (api_calls w)
           (completion_request self (create_prompt query (context_of results))) = Inl e"
  shows "fst (answer self query return_sources w) =
           Inr \<lparr> answer_text = ''Error generating answer: '' @ str_exc e,
                  sources = (if return_sources then results else []),
                  answer_metadata =
                    [ (''retrieved_chunks'', PyInt (int (length results))),
                      (''model'', PyStr (model self)),
                      (''query'', PyStr query) ] \<rparr>"
  using assms by (simp add: answer_def Let_def generate_raises)

text \<open>
  Claim C1. When the retriever returns no result, \<^verbatim>\<open>answer\<close> returns the fixed answer
  text with an empty list of sources, whatever \<open>return_sources\<close> is, and the log of calls
  of the generation API is what it was before: the API is not called.
\<close>

theorem answer_short_circuit:
  assumes "search (retriever self) query (Some (bot_top_k self)) = Inr []"
  shows "(\<exists>obj. fst (answer self query return_sources w) = Inr obj
            \<and> answer_text obj = ''I couldn't find any relevant information in the documents.''
            \<and> sources obj = [])
         \<and> api_calls (snd (answer self query return_sources w)) = api_calls w"
  using assms by (simp add: answer_nothing_retrieved no_information_def)

text \<open>A question put to the empty store.\<close>

theorem answer_short_circuit_witness:
  "search (retriever (example_bot answering_client empty_store)) ''What is attention?''
     (Some (bot_top_k (example_bot answering_client empty_store))) = Inr []
   \<and> answer_text (projr (fst (answer (example_bot answering_client empty_store)
                                 ''What is attention?'' True empty_world)))
       = ''I couldn't find any relevant information in the documents.''
   \<and> sources (projr (fst (answer (example_bot answering_client empty_store)
                             ''What is attention?'' True empty_world))) = []
   \<and> api_calls (snd (answer (example_bot answering_client empty_store)
                        ''What is attention?'' True empty_world)) = []"
proof -
  have s: "search (retriever (example_bot answering_client empty_store)) ''What is attention?''
             (Some (bot_top_k (example_bot answering_client empty_store))) = Inr []"
    by (simp add: search_example_bot empty_store_def)
  from answer_short_circuit [OF s, of True empty_world] s show ?thesis
    by (auto simp: empty_world_def)
qed

text \<open>
  Claim C2. When retrieval returns chunks and the call of the generation API raises,
  \<^verbatim>\<open>answer\<close> returns an object, not the exception. Its answer text is the words
  \<^verbatim>\<open>Error generating answer: \<close> followed by the text of the exception, hence not empty;
  its sources are the retrieved results (the empty list when \<open>return_sources\<close> is false);
  its metadata holds the number of retrieved chunks, the model and the query. With any
  other client, a client whose call succeeds included, the object returned has these same
  sources and this same metadata.
\<close>

theorem answer_survives_generation_failure:
  assumes "search (retriever self) query (Some (bot_top_k self)) = Inr results"
    and "results \<noteq> []"
    and "chat_completions_create (client self) (api_calls w)
           (completion_request self (create_prompt query (context_of results))) = Inl e"
  shows "fst (answer self query return_sources w) =
           Inr \<lparr> answer_text = ''Error generating answer: '' @ str_exc e,
                  sources = (if return_sources then results else []),
                  answer_metadata =
                    [ (''retrieved_chunks'', PyInt (int (length results))),
                      (''model'', PyStr (model self)),
                      (''query'', PyStr query) ] \<rparr>
         \<and> ''Error generating answer: '' @ str_exc e \<noteq> []
         \<and> (\<forall>c. \<exists>obj'. fst (answer (self\<lparr>client := c\<rparr>) query return_sources w) = Inr obj'
                  \<and> sources obj' = (if return_sources then results else [])
                  \<and> answer_metadata obj' =
                      [ (''retrieved_chunks'', PyInt (int (length results))),
                        (''model'', PyStr (model self)),
                        (''query'', PyStr query) ])"
proof -
  have failed: "fst (answer self query return_sources w) =
           Inr \<lparr> answer_text = ''Error generating answer: '' @ str_exc e,
                  sources = (if return_sources then results else []),
                  answer_metadata =
                    [ (''retrieved_chunks'', PyInt (int (length results))),
                      (''model'', PyStr (model self)),
                      (''query'', PyStr query) ] \<rparr>"
    using assms by (rule answer_generation_raises)
  have "\<exists>obj'. fst (answer (self\<lparr>client := c\<rparr>) query return_sources w) = Inr obj'
           \<and> sources obj' = (if return_sources then results else [])
           \<and> answer_metadata obj' =
                      [ (''retrieved_chunks'', PyInt (int (length results))),
                        (''model'', PyStr (model self)),
                        (''query'', PyStr query) ]" for c
  proof -
    have "search (retriever (self\<lparr>client := c\<rparr>)) query (Some (bot_top_k (self\<lparr>client := c\<rparr>)))
            = Inr results"
      using assms(1) by simp
    from answer_retrieved [OF this assms(2), of return_sources w]
    show ?thesis by auto
  qed
  with failed show ?thesis by simp
qed

text \<open>A client whose call fails, beside one whose call succeeds.\<close>

theorem answer_survives_generation_failure_witness:
  "search (retriever (example_bot failing_client two_chunk_store)) ''What is attention?''
     (Some (bot_top_k (example_bot failing_client two_chunk_store)))
     = Inr [ format_result (chunk_a, 1 / 4), format_result (chunk_b, 1 / 2) ]
   \<and> chat_completions_create (client (example_bot failing_client two_chunk_store))
        (api_calls empty_world)
        (completion_request (example_bot failing_client two_chunk_store)
           (create_prompt ''What is attention?''
              (context_of [ format_result (chunk_a, 1 / 4), format_result (chunk_b, 1 / 2) ])))
       = Inl (LibraryError ''Connection error.'')
   \<and> fst (answer (example_bot failing_client two_chunk_store) ''What is attention?'' True
            empty_world)
       = Inr \<lparr> answer_text = ''Error generating answer: Connection error.'',
               sources = [ format_result (chunk_a, 1 / 4), format_result (chunk_b, 1 / 2) ],
               answer_metadata = [ (''retrieved_chunks'', PyInt 2),
                                   (''model'', PyStr ''llama-3.2-3b-preview''),
                                   (''query'', PyStr ''What is attention?'') ] \<rparr>
   \<and> sources (projr (fst (answer (example_bot answering_client two_chunk_store)
                             ''What is attention?'' True empty_world)))
       = [ format_result (chunk_a, 1 / 4), format_result (chunk_b, 1 / 2) ]
   \<and> answer_metadata (projr (fst (answer (example_bot answering_client two_chunk_store)
                                     ''What is attention?'' True empty_world)))
       = [ (''retrieved_chunks'', PyInt 2),
           (''model'', PyStr ''llama-3.2-3b-preview''),
           (''query'', PyStr ''What is attention?'') ]"
proof -
  let ?bot = "example_bot failing_client two_chunk_store"
  let ?results = "[ format_result (chunk_a, 1 / 4), format_result (chunk_b, 1 / 2) ]"
  have s: "search (retriever ?bot) ''What is attention?'' (Some (bot_top_k ?bot)) = Inr ?results"
    by (simp add: search_example_bot two_chunk_store_def)
  have n: "?results \<noteq> []" by simp
  have g: "chat_completions_create (client ?bot) (api_calls empty_world)
             (completion_request ?bot (create_prompt ''What is attention?'' (context_of ?results)))
           = Inl (LibraryError ''Connection error.'')"
    by (simp add: example_bot_def failing_client_def)
  have c: "?bot\<lparr>client := answering_client\<rparr> = example_bot answering_client two_chunk_store"
    by (simp add: example_bot_def)
  have m: "model ?bot = ''llama-3.2-3b-preview''"
    by (simp add: example_bot_def)
  note main = answer_survives_generation_failure [OF s n g, of True]
  from main have failed: "fst (answer ?bot ''What is attention?'' True empty_world) =
       Inr \<lparr> answer_text = ''Error generating answer: '' @ str_exc (LibraryError ''Connection error.''),
              sources = (if True then ?results else []),
              answer_metadata =
                [ (''retrieved_chunks'', PyInt (int (length ?results))),
                  (''model'', PyStr (model ?bot)),
                  (''query'', PyStr ''What is attention?'') ] \<rparr>"
    by blast
  from main obtain obj'
    where "fst (answer (?bot\<lparr>client := answering_client\<rparr>) ''What is attention?'' True empty_world)
             = Inr obj'"
      and "sources obj' = (if True then ?results else [])"
      and "answer_metadata obj' =
             [ (''retrieved_chunks'', PyInt (int (length ?results))),
               (''model'', PyStr (model ?bot)),
               (''query'', PyStr ''What is attention?'') ]"
    by blast
  with failed s g c m show ?thesis by simp
qed

text \<open>
  Claim C6. \<^verbatim>\<open>answer(query, return_sources=False)\<close> returns what
  \<^verbatim>\<open>answer(query, return_sources=True)\<close> returns with the sources replaced by the empty
  list (the same exception when retrieval raises), and leaves the same world: the same
  console lines and the same calls of the generation API.
\<close>

theorem return_sources_only_drops_sources:
  "fst (answer self query False w)
     = map_sum id (\<lambda>obj. obj\<lparr>sources := []\<rparr>) (fst (answer self query True w))
   \<and> snd (answer self query False w) = snd (answer self query True w)"
  by (simp add: answer_def Let_def split: sum.splits prod.splits)

text \<open>The two calls on the store of two chunks, with the failing client.\<close>

theorem return_sources_only_drops_sources_witness:
  "fst (answer (example_bot failing_client two_chunk_store) ''What is attention?'' False
          empty_world)
     = map_sum id (\<lambda>obj. obj\<lparr>sources := []\<rparr>)
         (fst (answer (example_bot failing_client two_chunk_store) ''What is attention?'' True
                 empty_world))
   \<and> snd (answer (example_bot failing_client two_chunk_store) ''What is attention?'' False
            empty_world)
     = snd (answer (example_bot failing_client two_chunk_store) ''What is attention?'' True
              empty_world)"
  using return_sources_only_drops_sources
          [of "example_bot failing_client two_chunk_store" "''What is attention?''" empty_world]
  by simp

text \<open>
  Claim C3 as stated asks for the keys \<^verbatim>\<open>model\<close> and \<^verbatim>\<open>query\<close> in the metadata of every
  returned object. The object returned for the empty store has neither.
\<close>

theorem answer_metadata_keys_counterexample:
  "fst (answer (example_bot answering_client empty_store) ''What is attention?'' True empty_world)
     = Inr \<lparr> answer_text = ''I couldn't find any relevant information in the documents.'',
             sources = [],
             answer_metadata = [(''retrieved_chunks'', PyInt 0)] \<rparr>
   \<and> \<not> has_key [(''retrieved_chunks'', PyInt 0)] ''model''
   \<and> \<not> has_key [(''retrieved_chunks'', PyInt 0)] ''query''"
  by (simp add: answer_nothing_retrieved search_example_bot empty_store_def no_information_def
        has_key_def)

text \<open>
  Claim C3, as the code has it. An object returned by \<^verbatim>\<open>answer\<close> has a string as answer
  and a list of search results as sources: the retrieved results, or the empty list when
  \<open>return_sources\<close> is false. When at least one result was retrieved its metadata is the
  dictionary of \<^verbatim>\<open>retrieved_chunks\<close> (the number of results), \<^verbatim>\<open>model\<close> and
  \<^verbatim>\<open>query\<close>, and nothing else; on the short-circuit path it is the dictionary of
  \<^verbatim>\<open>retrieved_chunks\<close>, which is 0, and nothing else.
\<close>

theorem answer_metadata_keys:
  assumes "fst (answer self query return_sources w) = Inr obj"
  shows "\<exists>results. search (retriever self) query (Some (bot_top_k self)) = Inr results
           \<and> sources obj = (if return_sources then results else [])
           \<and> answer_metadata obj =
               (if results = [] then [(''retrieved_chunks'', PyInt 0)]
                else [ (''retrieved_chunks'', PyInt (int (length results))),
                       (''model'', PyStr (model self)),
                       (''query'', PyStr query) ])"
proof (cases "search (retriever self) query (Some (bot_top_k self))")
  case (Inl e)
  then show ?thesis using assms by (simp add: answer_retrieval_error)
next
  case (Inr results)
  show ?thesis
  proof (cases "results = []")
    case True
    with Inr assms show ?thesis by (auto simp: answer_nothing_retrieved)
  next
    case False
    from answer_retrieved [OF Inr False, of return_sources w] assms Inr False
    show ?thesis by auto
  qed
qed

text \<open>An answer from the store of two chunks, without sources.\<close>

theorem answer_metadata_keys_witness:
  "fst (answer (example_bot answering_client two_chunk_store) ''What is attention?'' False
          empty_world)
     = Inr \<lparr> answer_text = ''Transformers.'', sources = [],
             answer_metadata = [ (''retrieved_chunks'', PyInt 2),
                                 (''model'', PyStr ''llama-3.2-3b-preview''),
                                 (''query'', PyStr ''What is attention?'') ] \<rparr>
   \<and> search (retriever (example_bot answering_client two_chunk_store)) ''What is attention?''
        (Some (bot_top_k (example_bot answering_client two_chunk_store)))
       = Inr [ format_result (chunk_a, 1 / 4), format_result (chunk_b, 1 / 2) ]
   \<and> answer_metadata (projr (fst (answer (example_bot answering_client two_chunk_store)
                                     ''What is attention?'' False empty_world)))
       = [ (''retrieved_chunks'',
              PyInt (int (length [ format_result (chunk_a, 1 / 4),
                                   format_result (chunk_b, 1 / 2) ]))),
           (''model'', PyStr (model (example_bot answering_client two_chunk_store))),
           (''query'', PyStr ''What is attention?'') ]"
proof -
  let ?bot = "example_bot answering_client two_chunk_store"
  let ?results = "[ format_result (chunk_a, 1 / 4), format_result (chunk_b, 1 / 2) ]"
  let ?obj = "\<lparr> answer_text = ''Transformers.'', sources = [],
               answer_metadata = [ (''retrieved_chunks'', PyInt 2),
                                   (''model'', PyStr ''llama-3.2-3b-preview''),
                                   (''query'', PyStr ''What is attention?'') ] \<rparr>"
  have s: "search (retriever ?bot) ''What is attention?'' (Some (bot_top_k ?bot)) = Inr ?results"
    by (simp add: search_example_bot two_chunk_store_def)
  have st: "strip '' Transformers. '' = ''Transformers.''"
    by (simp add: strip_def isspace_def)
  have a: "fst (answer ?bot ''What is attention?'' False empty_world) = Inr ?obj"
    using s by (simp add: answer_def Let_def generate_def st)
       (simp add: example_bot_def answering_client_def st)
  from answer_metadata_keys [OF a] s
  have "answer_metadata ?obj =
          [ (''retrieved_chunks'', PyInt (int (length ?results))),
            (''model'', PyStr (model ?bot)),
            (''query'', PyStr ''What is attention?'') ]"
    by auto
  with a s show ?thesis by simp
qed

section \<open>Constructing a Retriever\<close>

lemma load_vectorstore_missing:
  assumes "\<not> path_exists (fs w) dir"
  shows "load_vectorstore env dir emb w =
           (Inl (FileNotFoundError
                   (''Vector store not found at '' @ dir @ ''. Please run ingest.py first.'')), w)"
  using assms by (simp add: load_vectorstore_def)

lemma Path_vectorstore: "Path ''vectorstore'' = ''vectorstore''"
  by code_simp

lemma Path_dot_vectorstore: "Path ''./vectorstore/'' = ''vectorstore''"
  by code_simp

lemma path_join_vectorstore:
  "path_join ''vectorstore'' ''metadata.pkl'' = ''vectorstore/metadata.pkl''"
  by code_simp

text \<open>
  Claim C5 as stated has the constructor fail with the store-not-found error whenever the
  directory is absent. The constructor loads the embedding model before it looks for the
  directory; where that load raises, the directory being absent, the constructor fails
  with the exception of the load.
\<close>

theorem retriever_store_not_found_counterexample:
  "\<not> path_exists (fs empty_world) (Path ''vectorstore'')
   \<and> fst (Retriever_init offline_env ''vectorstore'' MiniLM 4 empty_world)
       = Inl (LibraryError ''Connection error.'')"
  by (simp add: Retriever_init_def offline_env_def example_env_def path_exists_def
        empty_world_def)

text \<open>
  Claim C5, as the code has it. When the vector store directory does not exist, the
  constructor of \<^verbatim>\<open>Retriever\<close> never returns an object, so there is no \<^verbatim>\<open>Retriever\<close> to
  call \<^verbatim>\<open>search\<close> on. Once the embedding model has loaded, which the constructor does
  first, the exception is the \<^verbatim>\<open>FileNotFoundError\<close> that names the directory as
  \<^verbatim>\<open>Path\<close> prints it; when loading the embedding model raises, the exception is that
  one.
\<close>

theorem retriever_store_not_found:
  assumes "\<not> path_exists (fs w) (Path dir)"
  shows "(\<forall>r w'. Retriever_init env dir embedding_model k w \<noteq> (Inr r, w'))
         \<and> (\<forall>emb. HuggingFaceEmbeddings env embedding_model ''cpu'' = Inr emb \<longrightarrow>
               fst (Retriever_init env dir embedding_model k w) =
                 Inl (FileNotFoundError
                        (''Vector store not found at '' @ Path dir
                           @ ''. Please run ingest.py first.'')))
         \<and> (\<forall>e. HuggingFaceEmbeddings env embedding_model ''cpu'' = Inl e \<longrightarrow>
               fst (Retriever_init env dir embedding_model k w) = Inl e)"
  using assms
  by (auto simp: Retriever_init_def Let_def load_vectorstore_missing split: sum.splits)

text \<open>A file system with no store directory, and a directory name that is not in normal form.\<close>

theorem retriever_store_not_found_witness:
  "\<not> path_exists (fs empty_world) (Path ''./vectorstore/'')
   \<and> HuggingFaceEmbeddings example_env MiniLM ''cpu''
       = Inr \<lparr> model_name = MiniLM, device = ''cpu'' \<rparr>
   \<and> fst (Retriever_init example_env ''./vectorstore/'' MiniLM 4 empty_world)
       = Inl (FileNotFoundError
                ''Vector store not found at vectorstore. Please run ingest.py first.'')"
proof -
  have missing: "\<not> path_exists (fs empty_world) (Path ''./vectorstore/'')"
    by (simp add: path_exists_def empty_world_def)
  have emb: "HuggingFaceEmbeddings example_env MiniLM ''cpu''
               = Inr \<lparr> model_name = MiniLM, device = ''cpu'' \<rparr>"
    by (simp add: example_env_def)
  from retriever_store_not_found [OF missing, of example_env MiniLM 4] emb
  have "fst (Retriever_init example_env ''./vectorstore/'' MiniLM 4 empty_world)
          = Inl (FileNotFoundError
                   (''Vector store not found at '' @ Path ''./vectorstore/''
                      @ ''. Please run ingest.py first.''))"
    by blast
  with missing emb show ?thesis by (simp add: Path_dot_vectorstore)
qed

lemma load_vectorstore_Inr:
  assumes "load_vectorstore env dir emb w = (Inr vs, w')"
  shows "FAISS_load_local env dir emb (fs w) = Inr vs \<and> fs w' = fs w"
  using assms
  by (auto simp: load_vectorstore_def Let_def split: if_splits sum.splits)

lemma load_metadata_Inr:
  assumes "load_metadata dir w = Inr md"
  shows "md = (case fs w (path_join dir ''metadata.pkl'') of
                 Some (File (Pickled d)) \<Rightarrow> d | _ \<Rightarrow> [])"
  using assms
  by (auto simp: load_metadata_def Let_def path_exists_def pickle_load_def
           split: if_splits option.splits fs_node.splits file_content.splits)

lemma Retriever_init_Inr:
  assumes "Retriever_init env dir embedding_model k w = (Inr r, w')"
  shows "\<exists>emb vs. HuggingFaceEmbeddings env embedding_model ''cpu'' = Inr emb
           \<and> FAISS_load_local env (Path dir) emb (fs w) = Inr vs
           \<and> r = \<lparr> vectorstore_dir = Path dir, top_k = k, r_embeddings = emb, r_vectorstore = vs,
                    r_metadata = (case fs w (path_join (Path dir) ''metadata.pkl'') of
                                    Some (File (Pickled d)) \<Rightarrow> d | _ \<Rightarrow> []) \<rparr>"
proof -
  from assms obtain emb vs w2 md
    where emb: "HuggingFaceEmbeddings env embedding_model ''cpu'' = Inr emb"
      and vs: "load_vectorstore env (Path dir) emb (print (''Loading embedding model: '' @ embedding_model) w)
                 = (Inr vs, w2)"
      and md: "load_metadata (Path dir) w2 = Inr md"
      and r: "r = \<lparr> vectorstore_dir = Path dir, top_k = k, r_embeddings = emb, r_vectorstore = vs,
                    r_metadata = md \<rparr>"
    by (auto simp: Retriever_init_def Let_def split: sum.splits prod.splits)
  from load_vectorstore_Inr [OF vs]
  have load: "FAISS_load_local env (Path dir) emb (fs w) = Inr vs" and same: "fs w2 = fs w"
    by simp_all
  from load_metadata_Inr [OF md] same
  have "md = (case fs w (path_join (Path dir) ''metadata.pkl'') of
                Some (File (Pickled d)) \<Rightarrow> d | _ \<Rightarrow> [])"
    by simp
  with emb load r show ?thesis by blast
qed

section \<open>Retriever.get\_stats\<close>

text \<open>Loading the example store directory gives the example retriever.\<close>

lemma Retriever_init_stale_world:
  "fst (Retriever_init example_env ''vectorstore'' MiniLM 4 stale_world) = Inr stale_retriever"
  by (simp add: Retriever_init_def load_vectorstore_def load_metadata_def pickle_load_def
        path_exists_def Path_vectorstore path_join_vectorstore stale_world_def example_env_def
        stale_retriever_def MiniLM_def Let_def)

text \<open>
  Claim C7 as stated has \<^verbatim>\<open>total_chunks\<close> read from the sidecar record. In a store
  directory whose sidecar record says five chunks and whose index holds two,
  \<^verbatim>\<open>get_stats\<close> reports two.
\<close>

theorem get_stats_counterexample:
  "fst (Retriever_init example_env ''vectorstore'' MiniLM 4 stale_world) = Inr stale_retriever
   \<and> map_of (r_metadata stale_retriever) ''num_chunks'' = Some (PyInt 5)
   \<and> map_of (get_stats stale_retriever) ''total_chunks'' = Some (PyInt 2)"
  by (simp add: Retriever_init_stale_world)
     (simp add: stale_retriever_def get_stats_def two_chunk_store_def)

text \<open>
  Claim C7, as the code has it. For a \<^verbatim>\<open>Retriever\<close> that was constructed,
  \<^verbatim>\<open>total_chunks\<close> is the item count of the index that the library loaded, not the
  \<^verbatim>\<open>num_chunks\<close> of the sidecar record; \<^verbatim>\<open>chunk_size\<close> and \<^verbatim>\<open>chunk_overlap\<close> are read
  from the sidecar record \<^verbatim>\<open>metadata.pkl\<close> of the store directory, and each is the string
  \<^verbatim>\<open>Unknown\<close> when the record or the key is absent; \<^verbatim>\<open>embedding_model\<close> is a
  constant.
\<close>

theorem get_stats_after_load:
  assumes "Retriever_init env dir embedding_model k w = (Inr r, w')"
  shows "\<exists>emb vs. HuggingFaceEmbeddings env embedding_model ''cpu'' = Inr emb
           \<and> FAISS_load_local env (Path dir) emb (fs w) = Inr vs
           \<and> get_stats r =
               [ (''total_chunks'', PyInt (int (ntotal vs))),
                 (''chunk_size'',
                    case fs w (path_join (Path dir) ''metadata.pkl'') of
                      Some (File (Pickled d)) \<Rightarrow> dict_get d ''chunk_size'' (PyStr ''Unknown'')
                    | _ \<Rightarrow> PyStr ''Unknown''),
                 (''chunk_overlap'',
                    case fs w (path_join (Path dir) ''metadata.pkl'') of
                      Some (File (Pickled d)) \<Rightarrow> dict_get d ''chunk_overlap'' (PyStr ''Unknown'')
                    | _ \<Rightarrow> PyStr ''Unknown''),
                 (''embedding_model'', PyStr ''sentence-transformers/all-MiniLM-L6-v2'') ]"
proof -
  from Retriever_init_Inr [OF assms] obtain emb vs
    where emb: "HuggingFaceEmbeddings env embedding_model ''cpu'' = Inr emb"
      and load: "FAISS_load_local env (Path dir) emb (fs w) = Inr vs"
      and r: "r = \<lparr> vectorstore_dir = Path dir, top_k = k, r_embeddings = emb, r_vectorstore = vs,
                    r_metadata = (case fs w (path_join (Path dir) ''metadata.pkl'') of
                                    Some (File (Pickled d)) \<Rightarrow> d | _ \<Rightarrow> []) \<rparr>"
    by blast
  have "get_stats r =
               [ (''total_chunks'', PyInt (int (ntotal vs))),
                 (''chunk_size'',
                    case fs w (path_join (Path dir) ''metadata.pkl'') of
                      Some (File (Pickled d)) \<Rightarrow> dict_get d ''chunk_size'' (PyStr ''Unknown'')
                    | _ \<Rightarrow> PyStr ''Unknown''),
                 (''chunk_overlap'',
                    case fs w (path_join (Path dir) ''metadata.pkl'') of
                      Some (File (Pickled d)) \<Rightarrow> dict_get d ''chunk_overlap'' (PyStr ''Unknown'')
                    | _ \<Rightarrow> PyStr ''Unknown''),
                 (''embedding_model'', PyStr ''sentence-transformers/all-MiniLM-L6-v2'') ]"
    unfolding r get_stats_def
    by (simp add: dict_get_def split: option.splits fs_node.splits file_content.splits)
  with emb load show ?thesis by blast
qed

text \<open>The same store directory.\<close>

theorem get_stats_after_load_witness:
  "Retriever_init example_env ''vectorstore'' MiniLM 4 stale_world
     = (Inr stale_retriever, snd (Retriever_init example_env ''vectorstore'' MiniLM 4 stale_world))
   \<and> get_stats stale_retriever =
       [ (''total_chunks'', PyInt 2), (''chunk_size'', PyInt 1000),
         (''chunk_overlap'', PyInt 200),
         (''embedding_model'', PyStr ''sentence-transformers/all-MiniLM-L6-v2'') ]"
proof -
  have init: "Retriever_init example_env ''vectorstore'' MiniLM 4 stale_world
     = (Inr stale_retriever, snd (Retriever_init example_env ''vectorstore'' MiniLM 4 stale_world))"
    using Retriever_init_stale_world by (metis prod.collapse)
  have sidecar: "fs stale_world (path_join (Path ''vectorstore'') ''metadata.pkl'')
                   = Some (File (Pickled [(''num_chunks'', PyInt 5), (''chunk_size'', PyInt 1000),
                                          (''chunk_overlap'', PyInt 200)]))"
    by (simp add: stale_world_def Path_vectorstore path_join_vectorstore)
  from get_stats_after_load [OF init] obtain emb vs
    where "FAISS_load_local example_env (Path ''vectorstore'') emb (fs stale_world) = Inr vs"
      and stats: "get_stats stale_retriever =
               [ (''total_chunks'', PyInt (int (ntotal vs))),
                 (''chunk_size'',
                    case fs stale_world (path_join (Path ''vectorstore'') ''metadata.pkl'') of
                      Some (File (Pickled d)) \<Rightarrow> dict_get d ''chunk_size'' (PyStr ''Unknown'')
                    | _ \<Rightarrow> PyStr ''Unknown''),
                 (''chunk_overlap'',
                    case fs stale_world (path_join (Path ''vectorstore'') ''metadata.pkl'') of
                      Some (File (Pickled d)) \<Rightarrow> dict_get d ''chunk_overlap'' (PyStr ''Unknown'')
                    | _ \<Rightarrow> PyStr ''Unknown''),
                 (''embedding_model'', PyStr ''sentence-transformers/all-MiniLM-L6-v2'') ]"
    by blast
  then have "vs = two_chunk_store" by (simp add: example_env_def)
  with stats sidecar have "get_stats stale_retriever =
       [ (''total_chunks'', PyInt 2), (''chunk_size'', PyInt 1000),
         (''chunk_overlap'', PyInt 200),
         (''embedding_model'', PyStr ''sentence-transformers/all-MiniLM-L6-v2'') ]"
    by (simp add: two_chunk_store_def dict_get_def)
  with init show ?thesis by simp
qed

text \<open>
  The sidecar record that ingestion writes has the keys \<^verbatim>\<open>num_chunks\<close>,
  \<^verbatim>\<open>chunk_size\<close> and \<^verbatim>\<open>chunk_overlap\<close>.
\<close>

lemma save_vectorstore_sidecar:
  assumes "save_vectorstore self vs w = (Inr u, w')"
  shows "fs w' (path_join (ing_vectorstore_dir self) ''metadata.pkl'') =
           Some (File (Pickled [ (''num_chunks'', PyInt (int (ntotal vs))),
                                  (''chunk_size'', PyInt (chunk_size self)),
                                  (''chunk_overlap'', PyInt (chunk_overlap self)) ]))"
  using assms
  by (auto simp: save_vectorstore_def Let_def pickle_dump_def
           split: sum.splits prod.splits option.splits fs_node.splits)

section \<open>DocumentIngestor.chunk\_documents\<close>

text \<open>
  What the ingestor contributes to chunking: the splitter is the one the library built
  from the constructor's \<open>chunk_size\<close> and \<open>chunk_overlap\<close>, and the chunks are what
  that splitter returns, unchanged.
\<close>

lemma DocumentIngestor_init_splitter:
  assumes "DocumentIngestor_init env ddir vdir csize coverlap embedding_model w = (Inr self, w')"
  shows "RecursiveCharacterTextSplitter env csize coverlap [newline @ newline, newline, '' '', []]
           = Inr (text_splitter self)
         \<and> chunk_size self = csize \<and> chunk_overlap self = coverlap"
  using assms
  by (auto simp: DocumentIngestor_init_def Let_def split: sum.splits)

lemma chunk_documents_splitter_output:
  "fst (chunk_documents self documents w) = split_documents (text_splitter self) documents"
  by (simp add: chunk_documents_def Let_def split: sum.splits)

section \<open>DocumentIngestor.ingest\<close>

lemma str_nat_0: "str_nat 0 = ''0''"
  by code_simp

lemma load_documents_none:
  assumes "path_exists (fs w) (data_dir self)"
    and "DirectoryLoader_load env (data_dir self) ''**/*.pdf'' (fs w) = Inr []"
  shows "load_documents env self w =
           (Inr [], print ''Loaded 0 document pages''
                      (print (''Loading documents from '' @ data_dir self @ ''...'') w))"
  using assms by (simp add: load_documents_def Let_def str_nat_0)

text \<open>
  Claim C8. When the data directory exists and the loader finds no document,
  \<^verbatim>\<open>ingest\<close> returns normally, the file system is what it was before (no vector store
  is written, and the store directory and its contents are untouched), and the last line
  on the console is the message that no documents were found.
\<close>

theorem ingest_no_documents:
  assumes "path_exists (fs w) (data_dir self)"
    and "DirectoryLoader_load env (data_dir self) ''**/*.pdf'' (fs w) = Inr []"
  shows "fst (ingest env self w) = Inr ()
         \<and> fs (snd (ingest env self w)) = fs w
         \<and> stdout (snd (ingest env self w)) =
             stdout w @
               [ replicate 50 CHR ''='',
                 ''Starting Document Ingestion Pipeline'',
                 replicate 50 CHR ''='',
                 ''Loading documents from '' @ data_dir self @ ''...'',
                 ''Loaded 0 document pages'',
                 warning_sign @ '' No documents found. Please add PDF files to the data/ directory'' ]"
proof -
  let ?w3 = "print (replicate 50 CHR ''='')
               (print ''Starting Document Ingestion Pipeline''
                  (print (replicate 50 CHR ''='') w))"
  have "path_exists (fs ?w3) (data_dir self)"
    and "DirectoryLoader_load env (data_dir self) ''**/*.pdf'' (fs ?w3) = Inr []"
    using assms by simp_all
  then have "load_documents env self ?w3 =
               (Inr [], print ''Loaded 0 document pages''
                          (print (''Loading documents from '' @ data_dir self @ ''...'') ?w3))"
    by (rule load_documents_none)
  then have "ingest env self w =
               (Inr (), print no_documents_found
                          (print ''Loaded 0 document pages''
                             (print (''Loading documents from '' @ data_dir self @ ''...'') ?w3)))"
    by (simp add: ingest_def ingest_steps_def Let_def)
  then show ?thesis
    by (simp add: no_documents_found_def)
qed

text \<open>An existing data directory without a PDF file.\<close>

theorem ingest_no_documents_witness:
  "path_exists (fs data_world) (data_dir example_ingestor)
   \<and> DirectoryLoader_load example_env (data_dir example_ingestor) ''**/*.pdf'' (fs data_world)
       = Inr []
   \<and> fst (ingest example_env example_ingestor data_world) = Inr ()
   \<and> fs (snd (ingest example_env example_ingestor data_world)) = fs data_world
   \<and> stdout (snd (ingest example_env example_ingestor data_world)) =
       [ ''=================================================='',
         ''Starting Document Ingestion Pipeline'',
         ''=================================================='',
         ''Loading documents from data...'',
         ''Loaded 0 document pages'',
         warning_sign @ '' No documents found. Please add PDF files to the data/ directory'' ]"
proof -
  have there: "path_exists (fs data_world) (data_dir example_ingestor)"
    by (simp add: path_exists_def data_world_def example_ingestor_def)
  have none: "DirectoryLoader_load example_env (data_dir example_ingestor) ''**/*.pdf''
                (fs data_world) = Inr []"
    by (simp add: example_env_def)
  have bar: "replicate 50 CHR ''='' = ''==================================================''"
    by code_simp
  from ingest_no_documents [OF there none] there none show ?thesis
    by (simp add: bar) (simp add: data_world_def example_ingestor_def)
qed

end
